theory Spec2Isabelle
  imports Main "HOL-Library.AList" "HOL-Library.Char_ord" "HOL-Library.List_Lexorder"
begin

section \<open>Python string primitives used by \<^verbatim>\<open>xkb_manager.py\<close>\<close>

text \<open>
  Text is modelled as \<^typ>\<open>string\<close>. The marker syntax of the program is pure ASCII, and
  the case mapping and the white space of the model are those of Python on ASCII
  characters; a character outside ASCII is left alone by \<open>lower\<close>/\<open>upper\<close> and is not
  white space, which is not what \<^verbatim>\<open>str.lower\<close>, \<^verbatim>\<open>str.upper\<close> and \<^verbatim>\<open>str.rstrip\<close> do. The
  statements that depend on these functions are therefore made for ASCII text, which
  \<open>is_ascii\<close> says.
\<close>

definition ascii_uppercase :: string where
  "ascii_uppercase = ''ABCDEFGHIJKLMNOPQRSTUVWXYZ''"

definition ascii_lowercase :: string where
  "ascii_lowercase = ''abcdefghijklmnopqrstuvwxyz''"

definition lower_char :: "char \<Rightarrow> char" where
  "lower_char c = (case map_of (zip ascii_uppercase ascii_lowercase) c of
                     Some d \<Rightarrow> d | None \<Rightarrow> c)"

definition upper_char :: "char \<Rightarrow> char" where
  "upper_char c = (case map_of (zip ascii_lowercase ascii_uppercase) c of
                     Some d \<Rightarrow> d | None \<Rightarrow> c)"

definition lower :: "string \<Rightarrow> string" where
  "lower s = map lower_char s"

definition upper :: "string \<Rightarrow> string" where
  "upper s = map upper_char s"

text \<open>\<^verbatim>\<open>str.isspace\<close> on ASCII: blank, tab, newline, VT, FF, CR and FS, GS, RS, US.\<close>

definition py_isspace :: "char \<Rightarrow> bool" where
  "py_isspace c = (c \<in> set [CHR '' '', CHR 0x09, CHR ''\<newline>'', CHR 0x0B, CHR 0x0C,
                              CHR 0x0D, CHR 0x1C, CHR 0x1D, CHR 0x1E, CHR 0x1F])"


definition rstrip :: "string \<Rightarrow> string" where
  "rstrip s = rev (dropWhile py_isspace (rev s))"

definition startswith :: "string \<Rightarrow> string \<Rightarrow> bool" where
  "startswith s p = (take (length p) s = p)"

definition endswith :: "string \<Rightarrow> string \<Rightarrow> bool" where
  "endswith s x = (length x \<le> length s \<and> drop (length s - length x) s = x)"

text \<open>
  Iterating over a text file yields its lines, each with its terminating newline, the
  last one without it when the file does not end in a newline.
\<close>

fun file_lines :: "string \<Rightarrow> string list" where
  "file_lines [] = []"
| "file_lines (c # cs) =
     (if c = CHR ''\<newline>'' then [c] # file_lines cs
      else (case file_lines cs of [] \<Rightarrow> [[c]] | l # ls \<Rightarrow> (c # l) # ls))"

text \<open>
  The symbols files are opened in text mode with universal newlines: on reading, a
  carriage return followed by a line feed, and a carriage return alone, become the one
  character \<open>\<newline>\<close>. What is written goes to the file as it is (the line separator of
  the system is the line feed).
\<close>

fun universal_newlines :: "string \<Rightarrow> string" where
  "universal_newlines [] = []"
| "universal_newlines [c] = (if c = CHR 0x0D then [CHR ''\<newline>''] else [c])"
| "universal_newlines (c # d # cs) =
     (if c = CHR 0x0D
      then (if d = CHR ''\<newline>'' then CHR ''\<newline>'' # universal_newlines cs
            else CHR ''\<newline>'' # universal_newlines (d # cs))
      else c # universal_newlines (d # cs))"

definition read_lines :: "string \<Rightarrow> string list" where
  "read_lines content = file_lines (universal_newlines content)"

section \<open>The layouts and the index\<close>

text \<open>
  \<^verbatim>\<open>KeyboardLayout\<close> belongs to the module \<^verbatim>\<open>layout\<close>; the manager reads three entries of
  its \<^verbatim>\<open>meta\<close> dictionary and its \<^verbatim>\<open>xkb_symbols\<close> text, which are the fields here.
  A dictionary is an association list in insertion order with distinct keys, written to
  with \<^const>\<open>AList.update\<close>; \<open>None\<close> as a value asks for the removal of the variant.
\<close>

record KeyboardLayout =
  meta_locale :: string
  meta_variant :: string
  meta_description :: string
  xkb_symbols :: string

type_synonym Variant = "(string \<times> KeyboardLayout option) list"
type_synonym Index = "(string \<times> Variant) list"

definition dict_keys :: "('k \<times> 'v) list \<Rightarrow> 'k list" where
  "dict_keys d = map fst d"

section \<open>XKB/symbols: the marker protocol\<close>

record symbol_mark =
  mark_begin :: string
  mark_end :: string

definition LEGACY_MARK :: symbol_mark where
  "LEGACY_MARK = \<lparr>mark_begin = ''// LAFAYETTE::BEGIN\<newline>'',
                   mark_end = ''// LAFAYETTE::END\<newline>''\<rparr>"

definition get_symbol_mark :: "string \<Rightarrow> symbol_mark" where
  "get_symbol_mark name =
     \<lparr>mark_begin = ''// KALAMINE::'' @ upper name @ ''::BEGIN\<newline>'',
      mark_end = ''// KALAMINE::'' @ upper name @ ''::END\<newline>''\<rparr>"

text \<open>\<^verbatim>\<open>line[13:-8]\<close> is \<open>take (length line - 8 - 13) (drop 13 line)\<close>, empty when the
  line has fewer than 22 characters.\<close>

definition is_new_symbol_mark :: "string \<Rightarrow> string option" where
  "is_new_symbol_mark line =
     (if \<not> endswith line ''::BEGIN\<newline>'' then None
      else if startswith line ''// KALAMINE::''
        then Some (lower (take (length line - 8 - 13) (drop 13 line)))
      else Some ''lafayette'')"

text \<open>The truth value of an \<^verbatim>\<open>Optional[str]\<close>: \<^verbatim>\<open>None\<close> and the empty string are false.\<close>

fun truthy :: "string option \<Rightarrow> bool" where
  "truthy None = False"
| "truthy (Some s) = (s \<noteq> [])"

section \<open>XKB/symbols: rewriting one locale file\<close>

text \<open>The local variables of the loop; \<open>text_acc\<close> is the variable \<^verbatim>\<open>text\<close>.\<close>

record scanner =
  text_acc :: string
  modified_text :: bool
  between_marks :: bool
  closing_mark :: string

definition scanner_init :: scanner where
  "scanner_init = \<lparr>text_acc = [], modified_text = False, between_marks = False,
                    closing_mark = []\<rparr>"

text \<open>One turn of the loop \<^verbatim>\<open>for line in symbols\<close>.\<close>

definition scan_line :: "Variant \<Rightarrow> scanner \<Rightarrow> string \<Rightarrow> scanner" where
  "scan_line named_layouts s line =
     (let name = is_new_symbol_mark line in
      if truthy name then
        (if the name \<in> set (dict_keys named_layouts)
         then s\<lparr>closing_mark := take (length line - 6) line @ ''END\<newline>'',
                modified_text := True,
                between_marks := True,
                text_acc := rstrip (text_acc s)\<rparr>
         else s\<lparr>text_acc := text_acc s @ line\<rparr>)
      else if endswith line ''::END\<newline>'' then
        (if between_marks s \<and> startswith line (closing_mark s)
         then s\<lparr>between_marks := False, closing_mark := []\<rparr>
         else s\<lparr>text_acc := text_acc s @ line\<rparr>)
      else if \<not> between_marks s then s\<lparr>text_acc := text_acc s @ line\<rparr>
      else s)"

fun scan_lines :: "Variant \<Rightarrow> scanner \<Rightarrow> string list \<Rightarrow> scanner" where
  "scan_lines named_layouts s [] = s"
| "scan_lines named_layouts s (line # rest) =
     scan_lines named_layouts (scan_line named_layouts s line) rest"

text \<open>\<^verbatim>\<open>re.sub(r"^//#.*\n", "", body, flags=re.MULTILINE)\<close>: every line that starts
  with \<open>//#\<close> and is terminated by a newline is deleted.\<close>

definition drop_ignored_lines :: "string \<Rightarrow> string" where
  "drop_ignored_lines body =
     concat (filter (\<lambda>l. \<not> (startswith l ''//#'' \<and> endswith l ''\<newline>''))
                    (file_lines body))"

definition new_block :: "string \<Rightarrow> KeyboardLayout \<Rightarrow> string" where
  "new_block name layout =
     (let mark = get_symbol_mark name in
      ''\<newline>'' @ mark_begin mark
        @ rstrip (drop_ignored_lines (xkb_symbols layout)) @ ''\<newline>''
        @ mark_end mark)"

fun new_blocks :: "Variant \<Rightarrow> string" where
  "new_blocks [] = []"
| "new_blocks ((name, None) # rest) = new_blocks rest"
| "new_blocks ((name, Some layout) # rest) = new_block name layout @ new_blocks rest"

text \<open>
  The file is opened for reading and writing. After the loop the position is the end of
  the file; \<^verbatim>\<open>seek(0)\<close>, \<^verbatim>\<open>write\<close>, \<^verbatim>\<open>truncate\<close> replace the whole content and leave the
  position at its end, so the blocks written afterwards are appended in both cases.
  When nothing is replaced the bytes of the file stay as they are, carriage returns
  included.
\<close>

definition cleared_text :: "Variant \<Rightarrow> string \<Rightarrow> string" where
  "cleared_text named_layouts content =
     (let s = scan_lines named_layouts scanner_init (read_lines content) in
      if modified_text s then rstrip (text_acc s) @ ''\<newline>'' else content)"

definition update_symbols_locale :: "string \<Rightarrow> Variant \<Rightarrow> string" where
  "update_symbols_locale content named_layouts =
     cleared_text named_layouts content @ new_blocks named_layouts"

text \<open>
  Vocabulary for the statements about the loop: a line that opens a block to be dropped,
  the closing mark it sets, a line that closes a block, and a line that is no marker of
  either kind.
\<close>

definition opens_block :: "Variant \<Rightarrow> string \<Rightarrow> bool" where
  "opens_block named_layouts line =
     (truthy (is_new_symbol_mark line) \<and>
      the (is_new_symbol_mark line) \<in> set (dict_keys named_layouts))"

definition closing_mark_of :: "string \<Rightarrow> string" where
  "closing_mark_of line = take (length line - 6) line @ ''END\<newline>''"

definition closes_block :: "string \<Rightarrow> string \<Rightarrow> bool" where
  "closes_block mark line = (endswith line ''::END\<newline>'' \<and> startswith line mark)"

definition plain_line :: "string \<Rightarrow> bool" where
  "plain_line line =
     (\<not> endswith line ''::BEGIN\<newline>'' \<and> \<not> endswith line ''::END\<newline>'')"






section \<open>Failures\<close>

text \<open>
  An exception is one of the classes the handler tells apart: \<^verbatim>\<open>PermissionError\<close>, another
  \<^verbatim>\<open>OSError\<close> (Python's \<^verbatim>\<open>IOError\<close>) with its text, or an exception outside that class
  (\<^verbatim>\<open>UnicodeDecodeError\<close> of a file that is not UTF-8, \<^verbatim>\<open>XMLSyntaxError\<close> of a file that
  does not parse, \<^verbatim>\<open>XPathEvalError\<close> of a malformed XPath expression, \<^verbatim>\<open>SerialisationError\<close>
  of a tree that lxml cannot write out, \<^verbatim>\<open>IndexError\<close> of an empty XPath result). A
  command fails with an
  exception that propagates to the caller, or with \<^verbatim>\<open>SystemExit\<close> and its message;
  \<open>SystemExitTraceback e\<close> is the message \<^verbatim>\<open>Error: <e>.\<close> followed by the traceback.
  What the program prints to the terminal is not part of the model.
\<close>

datatype exception =
  PermissionError | OSError string | UnicodeDecodeError | XMLSyntaxError | XPathEvalError
  | SerialisationError | IndexError

datatype failure = Raised exception | SystemExit string | SystemExitTraceback exception

fun is_PermissionError :: "exception \<Rightarrow> bool" where
  "is_PermissionError PermissionError = True"
| "is_PermissionError _ = False"

fun is_IOError :: "exception \<Rightarrow> bool" where
  "is_IOError PermissionError = True"
| "is_IOError (OSError _) = True"
| "is_IOError _ = False"

definition exit_FileNotWritable :: "exception \<Rightarrow> string \<Rightarrow> failure" where
  "exit_FileNotWritable exception path =
     (if is_PermissionError exception then Raised exception
      else if is_IOError exception
        then SystemExit (''Error: could not write to file '' @ path @ ''.'')
      else SystemExitTraceback exception)"

text \<open>\<^verbatim>\<open>try: ... except Exception as exc: exit_FileNotWritable(exc, path)\<close>: an exception is
  handed to the handler, \<^verbatim>\<open>SystemExit\<close> is no \<^verbatim>\<open>Exception\<close> and passes.\<close>

fun try_except :: "failure + 'a \<Rightarrow> string \<Rightarrow> failure + 'a" where
  "try_except (Inl (Raised exc)) path = Inl (exit_FileNotWritable exc path)"
| "try_except r path = r"

section \<open>The files under the XKB root directory\<close>

text \<open>
  The registry of \<^verbatim>\<open>rules/base.xml\<close> and \<^verbatim>\<open>rules/evdev.xml\<close> has the shape of \<^verbatim>\<open>xkb.dtd\<close>,
  of which the program reads and writes \<^verbatim>\<open>layoutList\<close>, \<^verbatim>\<open>layout\<close>, \<^verbatim>\<open>variantList\<close>,
  \<^verbatim>\<open>variant\<close>, \<^verbatim>\<open>configItem/name\<close>, \<^verbatim>\<open>configItem/description\<close> and the attribute
  \<^verbatim>\<open>type\<close> of a variant. A layout has its name and at most one \<^verbatim>\<open>variantList\<close>; the
  \<^verbatim>\<open>layoutList\<close> may be missing; a variant has a name and a description. Two layouts
  may carry the same name.
\<close>

record variant =
  v_name :: string
  v_description :: string
  v_type :: "string option"

record layout =
  l_name :: string
  l_variantList :: "variant list option"

type_synonym registry = "layout list option"

text \<open>
  The bytes of a rules file are either exactly what \<^verbatim>\<open>tree.write(..., pretty_print=True,
  xml_declaration=True, encoding="utf-8")\<close> produces for a tree (\<open>Written\<close>), or other
  well-formed bytes that parse to a tree (\<open>Foreign\<close>, numbered: other indentation, another
  declaration, comments; the file that \<^verbatim>\<open>ensure_xkb_config_is_ready\<close> creates, with its
  document type, its comment and four blanks of indentation, is of this kind), or bytes
  that do not parse. Parsing what was written gives the tree back.
\<close>

datatype xml_file = Written registry | Foreign nat registry | Malformed nat

fun etree_parse :: "xml_file \<Rightarrow> failure + registry" where
  "etree_parse (Written tree) = Inr tree"
| "etree_parse (Foreign k tree) = Inr tree"
| "etree_parse (Malformed k) = Inl (Raised XMLSyntaxError)"

text \<open>The bytes of a file after it was parsed and written back unchanged.\<close>

fun reserialised :: "xml_file \<Rightarrow> xml_file" where
  "reserialised (Written tree) = Written tree"
| "reserialised (Foreign k tree) = Written tree"
| "reserialised (Malformed k) = Malformed k"

text \<open>
  The state of the disk: the rules files by file name, the symbols files by locale, and
  the paths at which opening a file for writing, or writing it, fails, each with the
  exception that is raised there (\<^verbatim>\<open>PermissionError\<close> for a file of another user,
  another \<^verbatim>\<open>OSError\<close>, or for a rules file the \<^verbatim>\<open>SerialisationError\<close> by which lxml reports
  a write that failed, a full disk for one). A write that fails without any report is
  not part of the model.
\<close>

record disk =
  rules_files :: "string \<rightharpoonup> xml_file"
  symbols_files :: "string \<rightharpoonup> string"
  write_fault :: "string \<rightharpoonup> exception"

definition rules_path :: "string \<Rightarrow> string \<Rightarrow> string" where
  "rules_path xkb_root filename = xkb_root @ ''/rules/'' @ filename"

definition symbols_path :: "string \<Rightarrow> string \<Rightarrow> string" where
  "symbols_path xkb_root locale = xkb_root @ ''/symbols/'' @ locale"

section \<open>XKB/symbols: all locale files\<close>

text \<open>\<^verbatim>\<open>update_symbols_locale\<close> on the disk: \<^verbatim>\<open>path.open("r+")\<close> may raise.\<close>

definition update_symbols_locale_at ::
  "string \<Rightarrow> string \<Rightarrow> Variant \<Rightarrow> disk \<Rightarrow> failure + disk" where
  "update_symbols_locale_at xkb_root locale named_layouts d =
     (case write_fault d (symbols_path xkb_root locale) of
        Some exc \<Rightarrow> Inl (Raised exc)
      | None \<Rightarrow>
         (case symbols_files d locale of
            None \<Rightarrow> Inl (Raised (OSError ''No such file or directory''))
          | Some content \<Rightarrow>
              Inr (d\<lparr>symbols_files := (symbols_files d)
                       (locale \<mapsto> update_symbols_locale content named_layouts)\<rparr>)))"

definition update_symbols_step ::
  "string \<Rightarrow> string \<times> Variant \<Rightarrow> disk \<Rightarrow> failure + disk" where
  "update_symbols_step xkb_root item d =
     (let locale = fst item; named_layouts = snd item;
          path = symbols_path xkb_root locale;
          created =
            (if symbols_files d locale = None then
               (case write_fault d path of
                  Some exc \<Rightarrow> Inl (Raised exc)
                | None \<Rightarrow> Inr (d\<lparr>symbols_files := (symbols_files d)
                                   (locale \<mapsto> ''// Generated by Kalamine'')\<rparr>))
             else Inr d)
      in case created of
           Inl f \<Rightarrow> Inl f
         | Inr d1 \<Rightarrow> try_except (update_symbols_locale_at xkb_root locale named_layouts d1) path)"

fun update_symbols :: "string \<Rightarrow> Index \<Rightarrow> disk \<Rightarrow> failure + disk" where
  "update_symbols xkb_root [] d = Inr d"
| "update_symbols xkb_root (item # rest) d =
     (case update_symbols_step xkb_root item d of
        Inl f \<Rightarrow> Inl f
      | Inr d1 \<Rightarrow> update_symbols xkb_root rest d1)"

text \<open>A dictionary of dictionaries: \<^verbatim>\<open>index[locale][name] = value\<close>, the inner dictionary
  created when the locale is new.\<close>

definition index_set ::
  "(string \<times> (string \<times> 'v) list) list \<Rightarrow> string \<Rightarrow> string \<Rightarrow> 'v
     \<Rightarrow> (string \<times> (string \<times> 'v) list) list" where
  "index_set idx locale name v =
     AList.update locale
       (AList.update name v (case map_of idx locale of None \<Rightarrow> [] | Some inner \<Rightarrow> inner))
       idx"

definition index_get ::
  "(string \<times> (string \<times> 'v) list) list \<Rightarrow> string \<Rightarrow> string \<Rightarrow> 'v option" where
  "index_get idx locale name =
     (case map_of idx locale of None \<Rightarrow> None | Some inner \<Rightarrow> map_of inner name)"

definition listed :: "(string \<times> (string \<times> 'v) list) list \<Rightarrow> string \<Rightarrow> string \<Rightarrow> bool" where
  "listed idx locale name = (index_get idx locale name \<noteq> None)"

fun list_symbols_lines ::
  "string \<Rightarrow> (string \<times> 'v) list \<Rightarrow> string list
     \<Rightarrow> (string \<times> (string \<times> 'v) list) list \<Rightarrow> (string \<times> (string \<times> 'v) list) list" where
  "list_symbols_lines locale variants [] filtered_index = filtered_index"
| "list_symbols_lines locale variants (line # rest) filtered_index =
     (case is_new_symbol_mark line of
        None \<Rightarrow> list_symbols_lines locale variants rest filtered_index
      | Some name \<Rightarrow>
          (case map_of variants name of
             Some v \<Rightarrow> list_symbols_lines locale variants rest
                         (index_set filtered_index locale name v)
           | None \<Rightarrow> list_symbols_lines locale variants rest filtered_index))"

fun list_symbols_locales ::
  "disk \<Rightarrow> (string \<times> (string \<times> 'v) list) list
     \<Rightarrow> (string \<times> (string \<times> 'v) list) list \<Rightarrow> (string \<times> (string \<times> 'v) list) list" where
  "list_symbols_locales d [] filtered_index = filtered_index"
| "list_symbols_locales d ((locale, variants) # rest) filtered_index =
     (case symbols_files d locale of
        None \<Rightarrow> list_symbols_locales d rest filtered_index
      | Some content \<Rightarrow>
          list_symbols_locales d rest
            (list_symbols_lines locale variants (read_lines content) filtered_index))"

definition list_symbols ::
  "disk \<Rightarrow> (string \<times> (string \<times> 'v) list) list \<Rightarrow> (string \<times> (string \<times> 'v) list) list" where
  "list_symbols d kb_index = list_symbols_locales d (sort_key fst kb_index) []"

section \<open>XKB/rules\<close>

definition new_layout :: "string \<Rightarrow> layout" where
  "new_layout locale = \<lparr>l_name = locale, l_variantList = Some []\<rparr>"

definition new_variant :: "string \<Rightarrow> string \<Rightarrow> variant" where
  "new_variant name description =
     \<lparr>v_name = name, v_description = description, v_type = None\<rparr>"

definition all_layouts :: "registry \<Rightarrow> layout list" where
  "all_layouts tree = (case tree of None \<Rightarrow> [] | Some ls \<Rightarrow> ls)"

text \<open>The positions of the layouts that \<^verbatim>\<open>//layout/configItem/name[text()="locale"]/../..\<close>
  selects, in document order.\<close>

definition find_layouts :: "layout list \<Rightarrow> string \<Rightarrow> nat list" where
  "find_layouts ls locale = filter (\<lambda>i. l_name (ls ! i) = locale) [0..<length ls]"

text \<open>
  The queries of \<^verbatim>\<open>get_rules_locale\<close> and \<^verbatim>\<open>remove_rules_variant\<close> are made by pasting
  the name between double quotes into the XPath expression. A double quote in the name
  ends the string literal there; what follows leaves the expression malformed and lxml
  raises \<^verbatim>\<open>XPathEvalError\<close>. The model raises it for every name with a double quote (a
  name made up to complete the expression would select other nodes instead).
\<close>

definition xpath_literal :: "string \<Rightarrow> bool" where
  "xpath_literal name = (CHR 0x22 \<notin> set name)"

text \<open>The element that \<^verbatim>\<open>get_rules_locale\<close> returns is given by its position in the
  returned tree.\<close>

definition get_rules_locale :: "registry \<Rightarrow> string \<Rightarrow> failure + (layout list \<times> nat)" where
  "get_rules_locale tree locale =
     (if \<not> xpath_literal locale then Inl (Raised XPathEvalError)
      else
        (let result = find_layouts (all_layouts tree) locale in
         if length result \<noteq> 1 then
           (case tree of
              None \<Rightarrow> Inl (Raised IndexError)
            | Some ls \<Rightarrow>
                (let ls' = ls @ [new_layout locale]
                 in Inr (ls', hd (find_layouts ls' locale))))
         else Inr (all_layouts tree, hd result)))"

definition remove_rules_variant :: "variant list \<Rightarrow> string \<Rightarrow> failure + variant list" where
  "remove_rules_variant variant_list name =
     (if \<not> xpath_literal name then Inl (Raised XPathEvalError)
      else Inr (filter (\<lambda>v. v_name v \<noteq> name) variant_list))"

definition add_rules_variant :: "variant list \<Rightarrow> string \<Rightarrow> string \<Rightarrow> variant list" where
  "add_rules_variant variant_list name description =
     variant_list @ [new_variant name description]"

fun update_rules_variants :: "variant list \<Rightarrow> Variant \<Rightarrow> failure + variant list" where
  "update_rules_variants vlist [] = Inr vlist"
| "update_rules_variants vlist ((name, layout) # rest) =
     (case remove_rules_variant vlist name of
        Inl f \<Rightarrow> Inl f
      | Inr vlist1 \<Rightarrow>
          update_rules_variants
            (case layout of
               None \<Rightarrow> vlist1
             | Some l \<Rightarrow> add_rules_variant vlist1 name (meta_description l))
            rest)"

fun update_rules_tree :: "string \<Rightarrow> registry \<Rightarrow> Index \<Rightarrow> failure + registry" where
  "update_rules_tree filepath tree [] = Inr tree"
| "update_rules_tree filepath tree ((locale, named_layouts) # rest) =
     (case get_rules_locale tree locale of
        Inl f \<Rightarrow> Inl f
      | Inr (ls, i) \<Rightarrow>
          (case l_variantList (ls ! i) of
             None \<Rightarrow> Inl (SystemExit (''Error: unexpected xml format in '' @ filepath @ ''.''))
           | Some vlist \<Rightarrow>
               (case update_rules_variants vlist named_layouts of
                  Inl f \<Rightarrow> Inl f
                | Inr vlist' \<Rightarrow>
                    update_rules_tree filepath
                      (Some (ls[i := (ls ! i)\<lparr>l_variantList := Some vlist'\<rparr>]))
                      rest)))"

definition tree_write :: "string \<Rightarrow> string \<Rightarrow> registry \<Rightarrow> disk \<Rightarrow> failure + disk" where
  "tree_write filepath filename tree d =
     (case write_fault d filepath of
        Some exc \<Rightarrow> Inl (Raised exc)
      | None \<Rightarrow> Inr (d\<lparr>rules_files := (rules_files d)(filename \<mapsto> Written tree)\<rparr>))"

definition update_rules_file :: "string \<Rightarrow> Index \<Rightarrow> string \<Rightarrow> disk \<Rightarrow> failure + disk" where
  "update_rules_file xkb_root kb_index filename d =
     (let filepath = rules_path xkb_root filename in
      case rules_files d filename of
        None \<Rightarrow> Inr d
      | Some file \<Rightarrow>
          try_except
            (case etree_parse file of
               Inl f \<Rightarrow> Inl f
             | Inr tree \<Rightarrow>
                 (case update_rules_tree filepath tree kb_index of
                    Inl f \<Rightarrow> Inl f
                  | Inr tree' \<Rightarrow> tree_write filepath filename tree' d))
            filepath)"

definition update_rules :: "string \<Rightarrow> Index \<Rightarrow> disk \<Rightarrow> failure + disk" where
  "update_rules xkb_root kb_index d =
     (case update_rules_file xkb_root kb_index ''base.xml'' d of
        Inl f \<Rightarrow> Inl f
      | Inr d1 \<Rightarrow> update_rules_file xkb_root kb_index ''evdev.xml'' d1)"

text \<open>\<^verbatim>\<open>mask.split("/")\<close>; the parameter \<^verbatim>\<open>mask\<close> is \<open>msk\<close> here.\<close>

fun split_slash :: "string \<Rightarrow> string list" where
  "split_slash [] = [[]]"
| "split_slash (c # cs) =
     (if c = CHR ''/'' then [] # split_slash cs
      else (case split_slash cs of [] \<Rightarrow> [[c]] | p # ps \<Rightarrow> (c # p) # ps))"

definition parse_mask :: "string \<Rightarrow> string \<times> string" where
  "parse_mask msk =
     (if msk = [] \<or> msk = ''*'' then (''*'', ''*'')
      else (let m = split_slash msk in
            if length m = 2 then (m ! 0, m ! 1) else (msk, ''*'')))"

definition mask_selects :: "string \<times> string \<Rightarrow> string \<Rightarrow> string \<Rightarrow> bool" where
  "mask_selects masks locale name =
     ((fst masks = ''*'' \<or> fst masks = locale) \<and> (snd masks = ''*'' \<or> snd masks = name))"

text \<open>The variants that \<^verbatim>\<open>//variant\<close> selects, in document order, each with the name of
  its layout.\<close>

definition tree_variants :: "registry \<Rightarrow> (string \<times> variant) list" where
  "tree_variants tree =
     concat (map (\<lambda>l. map (\<lambda>v. (l_name l, v))
                         (case l_variantList l of None \<Rightarrow> [] | Some vs \<Rightarrow> vs))
                 (all_layouts tree))"

fun list_rules_variants ::
  "string \<times> string \<Rightarrow> (string \<times> variant) list
     \<Rightarrow> (string \<times> (string \<times> string) list) list \<Rightarrow> (string \<times> (string \<times> string) list) list" where
  "list_rules_variants masks [] kb_index = kb_index"
| "list_rules_variants masks ((locale, v) # rest) kb_index =
     list_rules_variants masks rest
       (if mask_selects masks locale (v_name v)
        then index_set kb_index locale (v_name v) (v_description v)
        else kb_index)"

definition list_rules_file ::
  "string \<times> string \<Rightarrow> string \<Rightarrow> disk \<Rightarrow> (string \<times> (string \<times> string) list) list
     \<Rightarrow> failure + (string \<times> (string \<times> string) list) list" where
  "list_rules_file masks filename d kb_index =
     (case rules_files d filename of
        None \<Rightarrow> Inr kb_index
      | Some file \<Rightarrow>
          (case etree_parse file of
             Inl f \<Rightarrow> Inl f
           | Inr tree \<Rightarrow> Inr (list_rules_variants masks (tree_variants tree) kb_index)))"

definition list_rules ::
  "disk \<Rightarrow> string \<Rightarrow> failure + (string \<times> (string \<times> string) list) list" where
  "list_rules d msk =
     (let masks = parse_mask msk in
      case list_rules_file masks ''base.xml'' d [] of
        Inl f \<Rightarrow> Inl f
      | Inr kb_index \<Rightarrow> list_rules_file masks ''evdev.xml'' d kb_index)"

text \<open>The variants that the rules files declare: those of every file that is there and
  parses.\<close>

definition file_variants :: "disk \<Rightarrow> string \<Rightarrow> (string \<times> variant) list" where
  "file_variants d filename =
     (case rules_files d filename of
        None \<Rightarrow> []
      | Some file \<Rightarrow>
          (case etree_parse file of Inl f \<Rightarrow> [] | Inr tree \<Rightarrow> tree_variants tree))"

definition declared :: "disk \<Rightarrow> string \<Rightarrow> string \<Rightarrow> bool" where
  "declared d locale name =
     ((locale, name) \<in> set (map (\<lambda>lv. (fst lv, v_name (snd lv)))
                              (file_variants d ''base.xml'' @ file_variants d ''evdev.xml'')))"

section \<open>The manager\<close>

record XKBManager =
  as_root :: bool
  rootdir :: string
  index :: Index

definition add :: "XKBManager \<Rightarrow> KeyboardLayout \<Rightarrow> XKBManager" where
  "add m layout =
     m\<lparr>index := index_set (index m) (meta_locale layout) (meta_variant layout) (Some layout)\<rparr>"

definition remove :: "XKBManager \<Rightarrow> string \<Rightarrow> string \<Rightarrow> XKBManager" where
  "remove m locale variant = m\<lparr>index := index_set (index m) locale variant None\<rparr>"

definition update :: "XKBManager \<Rightarrow> disk \<Rightarrow> failure + (XKBManager \<times> disk)" where
  "update m d =
     (case update_rules (rootdir m) (index m) d of
        Inl f \<Rightarrow> Inl f
      | Inr d1 \<Rightarrow>
          (case update_symbols (rootdir m) (index m) d1 of
             Inl f \<Rightarrow> Inl f
           | Inr d2 \<Rightarrow> Inr (m\<lparr>index := []\<rparr>, d2)))"

text \<open>\<^verbatim>\<open>clean\<close> parses each rules file and pops the \<^verbatim>\<open>type\<close> attribute of every variant
  of the parsed tree. The trees are local to the method; the model returns them, and
  the disk as the method leaves it also when an exception ends it, so that both can be
  spoken about.\<close>

definition pop_type :: "registry \<Rightarrow> registry" where
  "pop_type tree =
     map_option (map (\<lambda>l. l\<lparr>l_variantList :=
                              map_option (map (\<lambda>v. v\<lparr>v_type := None\<rparr>)) (l_variantList l)\<rparr>))
                tree"

definition typed :: "registry \<Rightarrow> bool" where
  "typed tree =
     list_ex (\<lambda>l. case l_variantList l of
                     None \<Rightarrow> False
                   | Some vs \<Rightarrow> list_ex (\<lambda>v. v_type v \<noteq> None) vs)
             (all_layouts tree)"

definition clean_file ::
  "string \<Rightarrow> disk \<Rightarrow> registry list \<Rightarrow> disk \<times> (failure + registry list)" where
  "clean_file filename d trees =
     (case rules_files d filename of
        None \<Rightarrow> (d, Inr trees)
      | Some file \<Rightarrow>
          (case etree_parse file of
             Inl f \<Rightarrow> (d, Inl f)
           | Inr tree \<Rightarrow> (d, Inr (trees @ [pop_type tree]))))"

definition clean :: "XKBManager \<Rightarrow> disk \<Rightarrow> disk \<times> (failure + registry list)" where
  "clean m d =
     (case clean_file ''base.xml'' d [] of
        (d1, Inl f) \<Rightarrow> (d1, Inl f)
      | (d1, Inr trees) \<Rightarrow> clean_file ''evdev.xml'' d1 trees)"

text \<open>The methods \<^verbatim>\<open>list\<close> and \<^verbatim>\<open>list_all\<close> are \<open>list_mgr\<close> and \<open>list_all_mgr\<close>.\<close>

definition list_all_mgr :: "XKBManager \<Rightarrow> disk \<Rightarrow> string
     \<Rightarrow> failure + (string \<times> (string \<times> string) list) list" where
  "list_all_mgr m d msk = list_rules d msk"

definition list_mgr :: "XKBManager \<Rightarrow> disk \<Rightarrow> string
     \<Rightarrow> failure + (string \<times> (string \<times> string) list) list" where
  "list_mgr m d msk =
     (case list_rules d msk of
        Inl f \<Rightarrow> Inl f
      | Inr layouts \<Rightarrow> Inr (list_symbols d layouts))"

section \<open>Committing the same index again\<close>

text \<open>
  The index is a dictionary of dictionaries: no locale and, within a locale, no variant
  name occurs twice.
\<close>

definition well_formed_index :: "Index \<Rightarrow> bool" where
  "well_formed_index idx =
     (distinct (dict_keys idx) \<and> list_all (\<lambda>item. distinct (dict_keys (snd item))) idx)"








section \<open>An example state\<close>

text \<open>
  A user's XKB directory whose \<^verbatim>\<open>evdev.xml\<close> declares the variants \<open>azerty\<close> and \<open>bepo\<close> of
  \<open>fr\<close> and the variant \<open>neo\<close> of \<open>de\<close>, while only \<^verbatim>\<open>symbols/fr\<close> exists and holds a block
  for \<open>bepo\<close> alone.
\<close>

definition example_registry :: registry where
  "example_registry =
     Some [\<lparr>l_name = ''fr'',
            l_variantList = Some
              [\<lparr>v_name = ''azerty'', v_description = ''French (AZERTY)'', v_type = None\<rparr>,
               \<lparr>v_name = ''bepo'', v_description = ''French (Bepo)'', v_type = None\<rparr>]\<rparr>,
           \<lparr>l_name = ''de'',
            l_variantList = Some
              [\<lparr>v_name = ''neo'', v_description = ''German (Neo)'', v_type = None\<rparr>]\<rparr>]"

definition example_disk :: disk where
  "example_disk =
     \<lparr>rules_files = [''evdev.xml'' \<mapsto> Written example_registry],
      symbols_files =
        [''fr'' \<mapsto> ''// Generated by Kalamine\<newline>\<newline>// KALAMINE::BEPO::BEGIN\<newline>key <AD01> { [ b, B ] };\<newline>// KALAMINE::BEPO::END\<newline>''],
      write_fault = Map.empty\<rparr>"


text \<open>A directory whose rules declare the variant \<open>lafayette\<close> of \<open>fr\<close>, while the symbols
  file holds one block, of another program, and no block of Lafayette or Kalamine.\<close>

definition foreign_marker_disk :: disk where
  "foreign_marker_disk =
     \<lparr>rules_files =
        [''evdev.xml'' \<mapsto> Written (Some
           [\<lparr>l_name = ''fr'',
             l_variantList = Some
               [\<lparr>v_name = ''lafayette'', v_description = ''French (Lafayette)'',
                 v_type = None\<rparr>]\<rparr>])],
      symbols_files = [''fr'' \<mapsto> ''// FOO::BEGIN\<newline>key <AD01>\<newline>// FOO::END\<newline>''],
      write_fault = Map.empty\<rparr>"



definition example_manager :: XKBManager where
  "example_manager = \<lparr>as_root = False, rootdir = ''/home/u/.config/xkb'', index = []\<rparr>"

section \<open>Facts about the string primitives and the scanner\<close>

lemma endswith_iff: "endswith l x \<longleftrightarrow> (\<exists>p. l = p @ x)"
proof
  assume "endswith l x"
  then have "l = take (length l - length x) l @ x"
    by (metis append_take_drop_id endswith_def)
  then show "\<exists>p. l = p @ x" ..
next
  assume "\<exists>p. l = p @ x"
  then show "endswith l x" by (auto simp: endswith_def)
qed

lemma endswith_append: "endswith l (x @ y) \<Longrightarrow> endswith l y"
  by (auto simp: endswith_iff)

lemma begin_not_end: "endswith l ''::BEGIN\<newline>'' \<Longrightarrow> \<not> endswith l ''::END\<newline>''"
proof
  assume a: "endswith l ''::BEGIN\<newline>''" and b: "endswith l ''::END\<newline>''"
  from a have "endswith l (''::'' @ ''BEGIN\<newline>'')" by simp
  then have "endswith l ''BEGIN\<newline>''" by (rule endswith_append)
  with b show False by (simp add: endswith_def)
qed

lemma truthy_mark_endswith: "truthy (is_new_symbol_mark l) \<Longrightarrow> endswith l ''::BEGIN\<newline>''"
  by (auto simp: is_new_symbol_mark_def split: if_splits)

lemma plain_line_not_truthy: "plain_line l \<Longrightarrow> \<not> truthy (is_new_symbol_mark l)"
  using truthy_mark_endswith by (auto simp: plain_line_def)


lemma scan_line_opens:
  "opens_block nl line \<Longrightarrow>
   scan_line nl s line = s\<lparr>closing_mark := closing_mark_of line, modified_text := True,
                           between_marks := True, text_acc := rstrip (text_acc s)\<rparr>"
  by (simp add: scan_line_def opens_block_def closing_mark_of_def)



lemma scan_line_between_iff:
  "between_marks s \<Longrightarrow>
   between_marks (scan_line nl s line) \<longleftrightarrow> \<not> closes_block (closing_mark s) line"
  using begin_not_end truthy_mark_endswith
  by (auto simp: scan_line_def closes_block_def Let_def)

lemma scan_line_keeps_block:
  "\<not> opens_block nl line \<Longrightarrow> \<not> closes_block (closing_mark s) line \<Longrightarrow>
   closing_mark (scan_line nl s line) = closing_mark s \<and>
   between_marks (scan_line nl s line) = between_marks s"
  by (auto simp: scan_line_def closes_block_def opens_block_def Let_def)








section \<open>Re-scanning the blocks that were written\<close>





























section \<open>The marker protocol\<close>

lemma is_new_symbol_mark_Some_iff:
  "is_new_symbol_mark l \<noteq> None \<longleftrightarrow> endswith l ''::BEGIN\<newline>''"
  by (simp add: is_new_symbol_mark_def)

text \<open>
  Claim C3. \<^verbatim>\<open>is_new_symbol_mark\<close> is to recognise a line as a begin marker exactly when
  it has the current format \<^verbatim>\<open>// KALAMINE::<NAME>::BEGIN\<close> or the legacy format
  \<^verbatim>\<open>// LAFAYETTE::BEGIN\<close>. The function tests the suffix \<^verbatim>\<open>::BEGIN\<close> and the prefix
  \<^verbatim>\<open>// KALAMINE::\<close> only; the test of the legacy prefix stands in a comment. A line in
  neither format that ends in \<^verbatim>\<open>::BEGIN\<close> is therefore taken for the legacy marker and
  named \<open>lafayette\<close>.
\<close>

theorem is_new_symbol_mark_foreign_begin:
  "is_new_symbol_mark ''// FOO::BEGIN\<newline>'' = Some ''lafayette''"
  by code_simp

section \<open>The matching discipline of the scanner\<close>

text \<open>
  Claim C2, as the code has it. A begin marker whose name is a key of the mapping puts
  the scanner inside a block and records the closing mark made from its own prefix. The
  scanner then stays inside, with that closing mark, across every line that neither is
  the end marker with this prefix nor opens a block itself (a foreign line ending in
  \<^verbatim>\<open>::END\<close>, a begin marker whose name is no key, ordinary text), and the line after
  them closes the block if and only if it is the end marker with the prefix of the
  opening marker.
\<close>

theorem block_closed_only_by_matching_end:
  assumes "opens_block nl b"
    and "\<forall>l\<in>set content. \<not> opens_block nl l \<and> \<not> closes_block (closing_mark_of b) l"
  shows "between_marks (scan_lines nl (scan_line nl s b) content) \<and>
         closing_mark (scan_lines nl (scan_line nl s b) content) = closing_mark_of b \<and>
         (\<forall>line. between_marks (scan_line nl (scan_lines nl (scan_line nl s b) content) line)
                  \<longleftrightarrow> \<not> closes_block (closing_mark_of b) line)"
proof -
  have inv: "between_marks s' \<Longrightarrow> closing_mark s' = closing_mark_of b \<Longrightarrow>
             \<forall>l\<in>set ls. \<not> opens_block nl l \<and> \<not> closes_block (closing_mark_of b) l \<Longrightarrow>
             between_marks (scan_lines nl s' ls) \<and>
             closing_mark (scan_lines nl s' ls) = closing_mark_of b" for s' ls
  proof (induction ls arbitrary: s')
    case Nil
    then show ?case by simp
  next
    case (Cons l ls)
    then have "closing_mark (scan_line nl s' l) = closing_mark s' \<and>
               between_marks (scan_line nl s' l) = between_marks s'"
      by (intro scan_line_keeps_block) simp_all
    with Cons show ?case by simp
  qed
  have start: "between_marks (scan_line nl s b)"
    "closing_mark (scan_line nl s b) = closing_mark_of b"
    using assms(1) by (simp_all add: scan_line_opens)
  from inv [OF start assms(2)]
  have 1: "between_marks (scan_lines nl (scan_line nl s b) content)"
    and 2: "closing_mark (scan_lines nl (scan_line nl s b) content) = closing_mark_of b"
    by simp_all
  from 1 2 show ?thesis
    by (simp add: scan_line_between_iff)
qed

theorem block_closed_only_by_matching_end_witness:
  "between_marks
     (scan_lines [(''a'', None)]
        (scan_line [(''a'', None)] scanner_init ''// KALAMINE::A::BEGIN\<newline>'')
        [''key <AD01>\<newline>'', ''// FOO::END\<newline>'', ''// LAFAYETTE::END\<newline>'',
         ''// KALAMINE::B::BEGIN\<newline>'']) \<and>
   between_marks
     (scan_line [(''a'', None)]
        (scan_lines [(''a'', None)]
           (scan_line [(''a'', None)] scanner_init ''// KALAMINE::A::BEGIN\<newline>'')
           [''key <AD01>\<newline>'', ''// FOO::END\<newline>'', ''// LAFAYETTE::END\<newline>'',
            ''// KALAMINE::B::BEGIN\<newline>''])
        ''// KALAMINE::B::END\<newline>'') \<and>
   \<not> between_marks
     (scan_line [(''a'', None)]
        (scan_lines [(''a'', None)]
           (scan_line [(''a'', None)] scanner_init ''// KALAMINE::A::BEGIN\<newline>'')
           [''key <AD01>\<newline>'', ''// FOO::END\<newline>'', ''// LAFAYETTE::END\<newline>'',
            ''// KALAMINE::B::BEGIN\<newline>''])
        ''// KALAMINE::A::END\<newline>'')"
proof -
  have h1: "opens_block [(''a'', None)] ''// KALAMINE::A::BEGIN\<newline>''"
    by code_simp
  have h2: "\<forall>l\<in>set [''key <AD01>\<newline>'', ''// FOO::END\<newline>'', ''// LAFAYETTE::END\<newline>'',
                      ''// KALAMINE::B::BEGIN\<newline>''].
              \<not> opens_block [(''a'', None)] l \<and>
              \<not> closes_block (closing_mark_of ''// KALAMINE::A::BEGIN\<newline>'') l"
    by code_simp
  have c1: "\<not> closes_block (closing_mark_of ''// KALAMINE::A::BEGIN\<newline>'')
              ''// KALAMINE::B::END\<newline>''"
    by code_simp
  have c2: "closes_block (closing_mark_of ''// KALAMINE::A::BEGIN\<newline>'')
              ''// KALAMINE::A::END\<newline>''"
    by code_simp
  from block_closed_only_by_matching_end [OF h1 h2, of scanner_init] c1 c2
  show ?thesis by blast
qed

text \<open>
  The claim as the specification states it fails where a begin marker whose name is a
  key stands inside a block: that line is not block content, it opens a block of its
  own and replaces the closing mark. The end marker with the prefix of the first
  opening marker then no longer closes the block.
\<close>

theorem nested_begin_marker_replaces_closing_mark:
  "opens_block [(''a'', None), (''b'', None)] ''// KALAMINE::A::BEGIN\<newline>'' \<and>
   \<not> closes_block (closing_mark_of ''// KALAMINE::A::BEGIN\<newline>'')
       ''// KALAMINE::B::BEGIN\<newline>'' \<and>
   closes_block (closing_mark_of ''// KALAMINE::A::BEGIN\<newline>'')
     ''// KALAMINE::A::END\<newline>'' \<and>
   between_marks
     (scan_lines [(''a'', None), (''b'', None)] scanner_init
        [''// KALAMINE::A::BEGIN\<newline>'', ''// KALAMINE::B::BEGIN\<newline>'',
         ''// KALAMINE::A::END\<newline>''])"
  by code_simp

section \<open>Dropping and replacing blocks\<close>











section \<open>Failures while a file is rewritten\<close>




section \<open>The variants of a locale in the rules\<close>




section \<open>Cleaning\<close>

lemma clean_file_disk: "fst (clean_file filename d trees) = d"
  by (simp add: clean_file_def split: option.splits sum.splits)

lemma pop_type_untyped: "\<not> typed (pop_type tree)"
  by (cases tree) (auto simp: typed_def pop_type_def all_layouts_def list_ex_iff split: option.splits)

lemma clean_file_trees:
  "clean_file filename d trees = (d', Inr trees') \<Longrightarrow> list_all (\<lambda>t. \<not> typed t) trees \<Longrightarrow>
   list_all (\<lambda>t. \<not> typed t) trees'"
  by (auto simp: clean_file_def pop_type_untyped split: option.splits sum.splits)

text \<open>
  Claim C10. \<^verbatim>\<open>clean\<close> leaves the disk as it found it, also when a rules file does not
  parse and the method ends with the exception; the \<^verbatim>\<open>type\<close> attributes are dropped in
  the parsed trees only.
\<close>

theorem clean_writes_nothing:
  "fst (clean m d) = d \<and>
   (\<forall>trees. snd (clean m d) = Inr trees \<longrightarrow> list_all (\<lambda>t. \<not> typed t) trees)"
proof
  show "fst (clean m d) = d"
    using clean_file_disk [of "''base.xml''" d "[]"] clean_file_disk [of "''evdev.xml''" d]
    by (auto simp: clean_def split: prod.splits sum.splits)
next
  show "\<forall>trees. snd (clean m d) = Inr trees \<longrightarrow> list_all (\<lambda>t. \<not> typed t) trees"
  proof (intro allI impI)
    fix trees assume a: "snd (clean m d) = Inr trees"
    obtain d1 r1 where 1: "clean_file ''base.xml'' d [] = (d1, r1)" by force
    with a obtain t1 where r1: "r1 = Inr t1" by (cases r1) (auto simp: clean_def)
    obtain d2 r2 where 2: "clean_file ''evdev.xml'' d1 t1 = (d2, r2)" by force
    with a 1 r1 have r2: "r2 = Inr trees" by (simp add: clean_def)
    have "list_all (\<lambda>t. \<not> typed t) t1"
      using clean_file_trees [OF 1 [unfolded r1]] by simp
    then show "list_all (\<lambda>t. \<not> typed t) trees"
      using clean_file_trees [OF 2 [unfolded r2]] by simp
  qed
qed


theorem clean_writes_nothing_witness:
  "fst (clean \<lparr>as_root = True, rootdir = ''/usr/share/X11/xkb'', index = []\<rparr>
         \<lparr>rules_files =
            [''evdev.xml'' \<mapsto>
               Foreign 0 (Some [\<lparr>l_name = ''fr'', l_variantList = Some
                  [\<lparr>v_name = ''lafayette'', v_description = ''French (Lafayette)'',
                    v_type = Some ''lafayette''\<rparr>]\<rparr>])],
          symbols_files = Map.empty, write_fault = Map.empty\<rparr>) =
     \<lparr>rules_files =
            [''evdev.xml'' \<mapsto>
               Foreign 0 (Some [\<lparr>l_name = ''fr'', l_variantList = Some
                  [\<lparr>v_name = ''lafayette'', v_description = ''French (Lafayette)'',
                    v_type = Some ''lafayette''\<rparr>]\<rparr>])],
          symbols_files = Map.empty, write_fault = Map.empty\<rparr> \<and>
   snd (clean \<lparr>as_root = True, rootdir = ''/usr/share/X11/xkb'', index = []\<rparr>
         \<lparr>rules_files =
            [''evdev.xml'' \<mapsto>
               Foreign 0 (Some [\<lparr>l_name = ''fr'', l_variantList = Some
                  [\<lparr>v_name = ''lafayette'', v_description = ''French (Lafayette)'',
                    v_type = Some ''lafayette''\<rparr>]\<rparr>])],
          symbols_files = Map.empty, write_fault = Map.empty\<rparr>) =
     Inr [Some [\<lparr>l_name = ''fr'', l_variantList = Some
                  [\<lparr>v_name = ''lafayette'', v_description = ''French (Lafayette)'',
                    v_type = None\<rparr>]\<rparr>]] \<and>
   list_all (\<lambda>t. \<not> typed t)
     [Some [\<lparr>l_name = ''fr'', l_variantList = Some
                  [\<lparr>v_name = ''lafayette'', v_description = ''French (Lafayette)'',
                    v_type = None\<rparr>]\<rparr>]] \<and>
   typed (Some [\<lparr>l_name = ''fr'', l_variantList = Some
                  [\<lparr>v_name = ''lafayette'', v_description = ''French (Lafayette)'',
                    v_type = Some ''lafayette''\<rparr>]\<rparr>])"
proof -
  let ?m = "\<lparr>as_root = True, rootdir = ''/usr/share/X11/xkb'', index = []\<rparr>"
  let ?d = "\<lparr>rules_files =
            [''evdev.xml'' \<mapsto>
               Foreign 0 (Some [\<lparr>l_name = ''fr'', l_variantList = Some
                  [\<lparr>v_name = ''lafayette'', v_description = ''French (Lafayette)'',
                    v_type = Some ''lafayette''\<rparr>]\<rparr>])],
          symbols_files = Map.empty, write_fault = Map.empty\<rparr>"
  let ?trees = "[Some [\<lparr>l_name = ''fr'', l_variantList = Some
                  [\<lparr>v_name = ''lafayette'', v_description = ''French (Lafayette)'',
                    v_type = None\<rparr>]\<rparr>]]"
  note T = clean_writes_nothing [of ?m ?d]
  have s: "snd (clean ?m ?d) = Inr ?trees"
    by (simp add: clean_def clean_file_def pop_type_def)
  from T have a: "fst (clean ?m ?d) = ?d" by (rule conjunct1)
  from T s have b: "list_all (\<lambda>t. \<not> typed t) ?trees" by blast
  have c: "typed (Some [\<lparr>l_name = ''fr'', l_variantList = Some
                  [\<lparr>v_name = ''lafayette'', v_description = ''French (Lafayette)'',
                    v_type = Some ''lafayette''\<rparr>]\<rparr>])"
    by (simp add: typed_def all_layouts_def)
  from a s b c show ?thesis by (intro conjI)
qed

section \<open>Committing the empty index\<close>

lemma update_rules_file_frame:
  assumes "update_rules_file xkb_root kb_index filename d = Inr d'"
  shows "symbols_files d' = symbols_files d \<and> write_fault d' = write_fault d \<and>
         (\<forall>g. g \<noteq> filename \<longrightarrow> rules_files d' g = rules_files d g) \<and>
         (case rules_files d filename of
            None \<Rightarrow> rules_files d' filename = None
          | Some file \<Rightarrow>
              (\<exists>tree tree'. etree_parse file = Inr tree \<and>
                 update_rules_tree (rules_path xkb_root filename) tree kb_index = Inr tree' \<and>
                 rules_files d' filename = Some (Written tree')))"
proof (cases "rules_files d filename")
  case None
  with assms show ?thesis by (simp add: update_rules_file_def)
next
  case (Some xf)
  let ?p = "rules_path xkb_root filename"
  from assms Some obtain tree where t: "etree_parse xf = Inr tree"
    by (cases "etree_parse xf") (auto simp: update_rules_file_def elim: try_except.elims)
  from assms Some t obtain tree' where t': "update_rules_tree ?p tree kb_index = Inr tree'"
    by (cases "update_rules_tree ?p tree kb_index")
       (auto simp: update_rules_file_def elim: try_except.elims)
  from assms Some t t' have w: "tree_write ?p filename tree' d = Inr d'"
    by (cases "tree_write ?p filename tree' d")
       (auto simp: update_rules_file_def elim: try_except.elims)
  then have "d' = d\<lparr>rules_files := (rules_files d)(filename \<mapsto> Written tree')\<rparr>"
    by (auto simp: tree_write_def split: option.splits)
  with Some t t' show ?thesis by simp
qed

lemma reserialised_parse: "etree_parse xf = Inr tree \<Longrightarrow> reserialised xf = Written tree"
  by (cases xf) auto


lemma update_rules_file_empty:
  assumes "update_rules_file xkb_root [] filename d = Inr d'"
  shows "d' = d\<lparr>rules_files := (rules_files d)(filename := map_option reserialised (rules_files d filename))\<rparr>"
proof (cases "rules_files d filename")
  case None
  then have "(rules_files d)(filename := None) = rules_files d"
    by (simp add: fun_upd_idem)
  with assms None show ?thesis by (simp add: update_rules_file_def)
next
  case (Some xf)
  let ?p = "rules_path xkb_root filename"
  from assms Some obtain tree where t: "etree_parse xf = Inr tree"
    by (cases "etree_parse xf") (auto simp: update_rules_file_def elim: try_except.elims)
  from assms Some t have w: "tree_write ?p filename tree d = Inr d'"
    by (cases "tree_write ?p filename tree d")
       (auto simp: update_rules_file_def elim: try_except.elims)
  then have "d' = d\<lparr>rules_files := (rules_files d)(filename \<mapsto> Written tree)\<rparr>"
    by (auto simp: tree_write_def split: option.splits)
  with Some t show ?thesis by (simp add: reserialised_parse)
qed

lemma update_rules_empty:
  assumes "update_rules xkb_root [] d = Inr d'"
  shows "symbols_files d' = symbols_files d \<and> write_fault d' = write_fault d \<and>
         (\<forall>filename. rules_files d' filename =
            (if filename = ''base.xml'' \<or> filename = ''evdev.xml''
             then map_option reserialised (rules_files d filename)
             else rules_files d filename))"
proof -
  from assms obtain d1 where 1: "update_rules_file xkb_root [] ''base.xml'' d = Inr d1"
    and 2: "update_rules_file xkb_root [] ''evdev.xml'' d1 = Inr d'"
    by (auto simp: update_rules_def split: sum.splits)
  show ?thesis
    unfolding update_rules_file_empty [OF 2] update_rules_file_empty [OF 1] by simp
qed

lemma update_rules_written:
  assumes "update_rules xkb_root kb_index d = Inr d2"
    and "filename = ''base.xml'' \<or> filename = ''evdev.xml''"
    and "rules_files d filename = Some xf"
  shows "\<exists>tree. rules_files d2 filename = Some (Written tree)"
proof -
  from assms(1) obtain d1 where 1: "update_rules_file xkb_root kb_index ''base.xml'' d = Inr d1"
    and 2: "update_rules_file xkb_root kb_index ''evdev.xml'' d1 = Inr d2"
    by (auto simp: update_rules_def split: sum.splits)
  note f1 = update_rules_file_frame [OF 1] and f2 = update_rules_file_frame [OF 2]
  from assms(2) show ?thesis
  proof
    assume b: "filename = ''base.xml''"
    with f1 assms(3) obtain t where "rules_files d1 ''base.xml'' = Some (Written t)" by auto
    moreover from f2 have "rules_files d2 ''base.xml'' = rules_files d1 ''base.xml''" by simp
    ultimately show ?thesis using b by simp
  next
    assume e: "filename = ''evdev.xml''"
    from f1 have "rules_files d1 ''evdev.xml'' = rules_files d ''evdev.xml''" by simp
    with f2 assms(3) e show ?thesis by auto
  qed
qed

text \<open>
  Claim C5, as the code has it. A commit of the empty index that succeeds leaves the
  symbols files as they are and creates none; of the rules files it parses and writes
  back each of \<^verbatim>\<open>base.xml\<close> and \<^verbatim>\<open>evdev.xml\<close> that exists, so that the file holds the
  serialisation of its own tree afterwards, and a file that is missing stays missing.
  Whatever the index, a rules file that exists holds written bytes after an update of
  the rules that succeeds: \<^verbatim>\<open>tree.write\<close> is not guarded by a test of what was touched.
\<close>

theorem empty_index_rewrites_rules_only:
  "(index m = [] \<and> update m d = Inr (m', d') \<longrightarrow>
      m' = m \<and> symbols_files d' = symbols_files d \<and> write_fault d' = write_fault d \<and>
      (\<forall>filename. rules_files d' filename =
         (if filename = ''base.xml'' \<or> filename = ''evdev.xml''
          then map_option reserialised (rules_files d filename)
          else rules_files d filename))) \<and>
   (update_rules xkb_root kb_index d = Inr d2 \<and>
    (filename = ''base.xml'' \<or> filename = ''evdev.xml'') \<and>
    rules_files d filename = Some xf \<longrightarrow>
      (\<exists>tree. rules_files d2 filename = Some (Written tree)))"
proof (intro conjI impI)
  assume a: "index m = [] \<and> update m d = Inr (m', d')"
  then have r: "update_rules (rootdir m) [] d = Inr d'" and m: "m' = m"
    by (auto simp: update_def split: sum.splits)
  from m show "m' = m" .
  from update_rules_empty [OF r]
  show "symbols_files d' = symbols_files d" "write_fault d' = write_fault d"
    "\<forall>filename. rules_files d' filename =
         (if filename = ''base.xml'' \<or> filename = ''evdev.xml''
          then map_option reserialised (rules_files d filename)
          else rules_files d filename)"
    by simp_all
next
  assume "update_rules xkb_root kb_index d = Inr d2 \<and>
    (filename = ''base.xml'' \<or> filename = ''evdev.xml'') \<and>
    rules_files d filename = Some xf"
  then show "\<exists>tree. rules_files d2 filename = Some (Written tree)"
    using update_rules_written [of xkb_root kb_index d d2 filename xf] by blast
qed

theorem empty_index_rewrites_rules_only_witness:
  "symbols_files
     \<lparr>rules_files = [''evdev.xml'' \<mapsto> Written (Some [])],
      symbols_files = [''fr'' \<mapsto> ''// Generated by Kalamine''], write_fault = Map.empty\<rparr> =
   symbols_files
     \<lparr>rules_files = [''evdev.xml'' \<mapsto> Foreign 0 (Some [])],
      symbols_files = [''fr'' \<mapsto> ''// Generated by Kalamine''], write_fault = Map.empty\<rparr> \<and>
   rules_files
     \<lparr>rules_files = [''evdev.xml'' \<mapsto> Written (Some [])],
      symbols_files = [''fr'' \<mapsto> ''// Generated by Kalamine''], write_fault = Map.empty\<rparr>
     ''evdev.xml'' = map_option reserialised (Some (Foreign 0 (Some []))) \<and>
   (\<exists>tree. rules_files
      \<lparr>rules_files = [''evdev.xml'' \<mapsto>
         Written (Some [\<lparr>l_name = ''fr'', l_variantList = Some []\<rparr>])],
       symbols_files = [''fr'' \<mapsto> ''// Generated by Kalamine''], write_fault = Map.empty\<rparr>
      ''evdev.xml'' = Some (Written tree))"
proof -
  let ?m = "\<lparr>as_root = False, rootdir = ''/home/u/.config/xkb'', index = []\<rparr>"
  let ?d = "\<lparr>rules_files = [''evdev.xml'' \<mapsto> Foreign 0 (Some [])],
      symbols_files = [''fr'' \<mapsto> ''// Generated by Kalamine''], write_fault = Map.empty\<rparr>"
  let ?d1 = "\<lparr>rules_files = [''evdev.xml'' \<mapsto> Written (Some [])],
      symbols_files = [''fr'' \<mapsto> ''// Generated by Kalamine''], write_fault = Map.empty\<rparr>"
  let ?d2 = "\<lparr>rules_files = [''evdev.xml'' \<mapsto>
         Written (Some [\<lparr>l_name = ''fr'', l_variantList = Some []\<rparr>])],
       symbols_files = [''fr'' \<mapsto> ''// Generated by Kalamine''], write_fault = Map.empty\<rparr>"
  have h1: "index ?m = []" by simp
  have h2: "update ?m ?d = Inr (?m, ?d1)"
    by (simp add: update_def update_rules_def update_rules_file_def tree_write_def rules_path_def)
  have h3: "update_rules ''/home/u/.config/xkb'' [(''fr'', [(''a'', None)])] ?d = Inr ?d2"
    by (simp add: update_rules_def update_rules_file_def tree_write_def rules_path_def
        get_rules_locale_def find_layouts_def all_layouts_def new_layout_def
        remove_rules_variant_def xpath_literal_def)
  have h4: "rules_files ?d ''evdev.xml'' = Some (Foreign 0 (Some []))" by simp
  note T = empty_index_rewrites_rules_only
    [of ?m ?d ?m ?d1 "''/home/u/.config/xkb''" "[(''fr'', [(''a'', None)])]" ?d2
       "''evdev.xml''" "Foreign 0 (Some [])"]
  from T h1 h2 have a: "symbols_files ?d1 = symbols_files ?d"
    and b: "\<forall>filename. rules_files ?d1 filename =
         (if filename = ''base.xml'' \<or> filename = ''evdev.xml''
          then map_option reserialised (rules_files ?d filename)
          else rules_files ?d filename)"
    by blast+
  from b have b': "rules_files ?d1 ''evdev.xml'' = map_option reserialised (Some (Foreign 0 (Some [])))"
    by simp
  from T h3 h4 have c: "\<exists>tree. rules_files ?d2 ''evdev.xml'' = Some (Written tree)"
    by blast
  from a b' c show ?thesis by (intro conjI)
qed

text \<open>
  The claim as the specification states it fails on a rules file whose bytes are not the
  serialiser's: the commit of the empty index replaces them.
\<close>

theorem empty_index_rewrites_foreign_rules_file:
  "update \<lparr>as_root = False, rootdir = ''/home/u/.config/xkb'', index = []\<rparr>
     \<lparr>rules_files = [''evdev.xml'' \<mapsto> Foreign 0 (Some [])],
      symbols_files = Map.empty, write_fault = Map.empty\<rparr> =
   Inr (\<lparr>as_root = False, rootdir = ''/home/u/.config/xkb'', index = []\<rparr>,
        \<lparr>rules_files = [''evdev.xml'' \<mapsto> Written (Some [])],
         symbols_files = Map.empty, write_fault = Map.empty\<rparr>) \<and>
   Written (Some []) \<noteq> Foreign 0 (Some [])"
  by (simp add: update_def update_rules_def update_rules_file_def tree_write_def rules_path_def)



section \<open>Listing the rules\<close>

lemma map_of_index_set:
  "map_of (index_set idx l n v) l' =
     (if l' = l
      then Some (AList.update n v (case map_of idx l of None \<Rightarrow> [] | Some inner \<Rightarrow> inner))
      else map_of idx l')"
  by (simp add: index_set_def update_conv')

lemma index_get_index_set:
  "index_get (index_set idx l n v) l' n' =
     (if l' = l \<and> n' = n then Some v else index_get idx l' n')"
  by (auto simp: index_get_def map_of_index_set update_conv' split: option.splits)

lemma listed_index_set:
  "listed (index_set idx l n v) l' n' \<longleftrightarrow> (l' = l \<and> n' = n) \<or> listed idx l' n'"
  by (auto simp: listed_def index_get_index_set)

lemma listed_Nil: "\<not> listed [] l n"
  by (simp add: listed_def index_get_def)

lemma index_get_list_rules_variants:
  "listed (list_rules_variants masks vs idx) l n \<longleftrightarrow>
     listed idx l n \<or>
     ((l, n) \<in> set (map (\<lambda>lv. (fst lv, v_name (snd lv))) vs) \<and> mask_selects masks l n)"
proof (induction vs arbitrary: idx)
  case Nil
  show ?case by simp
next
  case (Cons p vs)
  obtain l' v where p: "p = (l', v)" by (cases p)
  show ?case
    unfolding p by (auto simp: Cons.IH listed_index_set)
qed

lemma list_rules_file_listed:
  assumes "list_rules_file masks filename d idx = Inr idx'"
  shows "listed idx' l n \<longleftrightarrow>
     listed idx l n \<or>
     ((l, n) \<in> set (map (\<lambda>lv. (fst lv, v_name (snd lv))) (file_variants d filename)) \<and>
      mask_selects masks l n)"
proof (cases "rules_files d filename")
  case None
  with assms show ?thesis by (simp add: list_rules_file_def file_variants_def)
next
  case (Some xf)
  with assms obtain tree where t: "etree_parse xf = Inr tree"
    and i: "idx' = list_rules_variants masks (tree_variants tree) idx"
    by (auto simp: list_rules_file_def split: sum.splits)
  show ?thesis
    unfolding i by (simp add: index_get_list_rules_variants file_variants_def Some t)
qed

lemma list_rules_listed:
  assumes "list_rules d msk = Inr idx"
  shows "listed idx l n \<longleftrightarrow> declared d l n \<and> mask_selects (parse_mask msk) l n"
proof -
  from assms obtain idx1 where 1: "list_rules_file (parse_mask msk) ''base.xml'' d [] = Inr idx1"
    and 2: "list_rules_file (parse_mask msk) ''evdev.xml'' d idx1 = Inr idx"
    by (auto simp: list_rules_def Let_def split: sum.splits)
  show ?thesis
    unfolding list_rules_file_listed [OF 2] list_rules_file_listed [OF 1]
    by (auto simp: declared_def listed_Nil)
qed









section \<open>Listing what is installed\<close>

lemma listed_list_symbols_lines:
  "listed (list_symbols_lines loc variants lines acc) l n \<Longrightarrow>
   listed acc l n \<or> (l = loc \<and> (\<exists>line\<in>set lines. is_new_symbol_mark line = Some n))"
proof (induction lines arbitrary: acc)
  case Nil
  then show ?case by simp
next
  case (Cons line lines)
  show ?case
  proof (cases "is_new_symbol_mark line")
    case None
    with Cons show ?thesis by auto
  next
    case (Some name)
    show ?thesis
    proof (cases "map_of variants name")
      case None
      with Some Cons show ?thesis by auto
    next
      case (Some v)
      with \<open>is_new_symbol_mark line = Some name\<close> Cons.prems
      have "listed (list_symbols_lines loc variants lines (index_set acc loc name v)) l n"
        by simp
      from Cons.IH [OF this] show ?thesis
        using \<open>is_new_symbol_mark line = Some name\<close> by (auto simp: listed_index_set)
    qed
  qed
qed

lemma key_list_symbols_lines:
  "map_of (list_symbols_lines loc variants lines acc) l \<noteq> None \<Longrightarrow>
   map_of acc l \<noteq> None \<or> l = loc"
proof (induction lines arbitrary: acc)
  case Nil
  then show ?case by simp
next
  case (Cons line lines)
  show ?case
  proof (cases "is_new_symbol_mark line")
    case None
    with Cons show ?thesis by auto
  next
    case (Some name)
    show ?thesis
    proof (cases "map_of variants name")
      case None
      with Some Cons show ?thesis by auto
    next
      case (Some v)
      with \<open>is_new_symbol_mark line = Some name\<close> Cons.prems
      have "map_of (list_symbols_lines loc variants lines (index_set acc loc name v)) l \<noteq> None"
        by simp
      from Cons.IH [OF this] show ?thesis
        by (auto simp: map_of_index_set split: if_splits)
    qed
  qed
qed

lemma listed_list_symbols_locales:
  "listed (list_symbols_locales d items acc) l n \<Longrightarrow>
   listed acc l n \<or>
   (\<exists>content. symbols_files d l = Some content \<and>
      (\<exists>line\<in>set (read_lines content). is_new_symbol_mark line = Some n))"
proof (induction items arbitrary: acc)
  case Nil
  then show ?case by simp
next
  case (Cons item items)
  obtain loc variants where item: "item = (loc, variants)" by (cases item)
  show ?case
  proof (cases "symbols_files d loc")
    case None
    with Cons item show ?thesis by simp
  next
    case (Some content)
    with Cons.prems item
    have "listed (list_symbols_locales d items
             (list_symbols_lines loc variants (read_lines content) acc)) l n"
      by simp
    from Cons.IH [OF this] show ?thesis
      using Some listed_list_symbols_lines [of loc variants "read_lines content" acc l n]
      by auto
  qed
qed

lemma key_list_symbols_locales:
  "map_of (list_symbols_locales d items acc) l \<noteq> None \<Longrightarrow>
   map_of acc l \<noteq> None \<or> symbols_files d l \<noteq> None"
proof (induction items arbitrary: acc)
  case Nil
  then show ?case by simp
next
  case (Cons item items)
  obtain loc variants where item: "item = (loc, variants)" by (cases item)
  show ?case
  proof (cases "symbols_files d loc")
    case None
    with Cons item show ?thesis by simp
  next
    case (Some content)
    with Cons.prems item
    have "map_of (list_symbols_locales d items
             (list_symbols_lines loc variants (read_lines content) acc)) l \<noteq> None"
      by simp
    from Cons.IH [OF this] show ?thesis
      using Some key_list_symbols_lines [of loc variants "read_lines content" acc l]
      by auto
  qed
qed

text \<open>
  Let a pair of locale and variant be declared in the rules files, and let these parse.
  Then \<^verbatim>\<open>list_all\<close> returns the pair exactly when the mask selects it, while \<^verbatim>\<open>list\<close> does
  not return it, under any mask, when the symbols file of the locale has no line that
  \<^verbatim>\<open>is_new_symbol_mark\<close> takes for a begin marker of that name, or does not exist; in the
  latter case the locale is no key of the result at all.
\<close>

lemma declared_but_not_installed:
  assumes "list_all_mgr m d msk = Inr all_idx" and "declared d l n"
  shows "\<exists>registered. list_mgr m d msk = Inr registered \<and>
           (listed all_idx l n \<longleftrightarrow> mask_selects (parse_mask msk) l n) \<and>
           (symbols_files d l = None \<or>
            (\<exists>content. symbols_files d l = Some content \<and>
               list_all (\<lambda>line. is_new_symbol_mark line \<noteq> Some n) (read_lines content))
            \<longrightarrow> \<not> listed registered l n) \<and>
           (symbols_files d l = None \<longrightarrow> map_of registered l = None)"
proof -
  from assms(1) have r: "list_rules d msk = Inr all_idx" by (simp add: list_all_mgr_def)
  then have reg: "list_mgr m d msk = Inr (list_symbols d all_idx)"
    by (simp add: list_mgr_def)
  have 1: "listed all_idx l n \<longleftrightarrow> mask_selects (parse_mask msk) l n"
    using list_rules_listed [OF r, of l n] assms(2) by simp
  have 2: "\<not> listed (list_symbols d all_idx) l n"
    if "symbols_files d l = None \<or>
        (\<exists>content. symbols_files d l = Some content \<and>
           list_all (\<lambda>line. is_new_symbol_mark line \<noteq> Some n) (read_lines content))"
  proof
    assume a: "listed (list_symbols d all_idx) l n"
    from listed_list_symbols_locales [OF a [unfolded list_symbols_def]] that
    show False by (auto simp: listed_Nil list_all_iff)
  qed
  have 3: "map_of (list_symbols d all_idx) l = None" if "symbols_files d l = None"
  proof (rule ccontr)
    assume a: "map_of (list_symbols d all_idx) l \<noteq> None"
    from key_list_symbols_locales [OF a [unfolded list_symbols_def]] that
    show False by simp
  qed
  show ?thesis
  proof (intro exI conjI)
    show "list_mgr m d msk = Inr (list_symbols d all_idx)" by (rule reg)
    show "listed all_idx l n \<longleftrightarrow> mask_selects (parse_mask msk) l n" by (rule 1)
    show "symbols_files d l = None \<or>
            (\<exists>content. symbols_files d l = Some content \<and>
               list_all (\<lambda>line. is_new_symbol_mark line \<noteq> Some n) (read_lines content))
            \<longrightarrow> \<not> listed (list_symbols d all_idx) l n"
      by (intro impI 2)
    show "symbols_files d l = None \<longrightarrow> map_of (list_symbols d all_idx) l = None"
      by (intro impI 3)
  qed
qed



lemma declared_but_not_installed_example:
  "list_mgr example_manager example_disk [] = Inr [(''fr'', [(''bepo'', ''French (Bepo)'')])] \<and>
   listed [(''fr'', [(''azerty'', ''French (AZERTY)''), (''bepo'', ''French (Bepo)'')]),
           (''de'', [(''neo'', ''German (Neo)'')])] ''fr'' ''azerty'' \<and>
   \<not> listed [(''fr'', [(''bepo'', ''French (Bepo)'')])] ''fr'' ''azerty'' \<and>
   listed [(''fr'', [(''azerty'', ''French (AZERTY)''), (''bepo'', ''French (Bepo)'')]),
           (''de'', [(''neo'', ''German (Neo)'')])] ''de'' ''neo'' \<and>
   map_of [(''fr'', [(''bepo'', ''French (Bepo)'')])] ''de'' = None"
proof -
  let ?all = "[(''fr'', [(''azerty'', ''French (AZERTY)''), (''bepo'', ''French (Bepo)'')]),
          (''de'', [(''neo'', ''German (Neo)'')])]"
  let ?reg = "[(''fr'', [(''bepo'', ''French (Bepo)'')])]"
  have e1: "list_all_mgr example_manager example_disk [] = Inr ?all" by code_simp
  have e2: "list_mgr example_manager example_disk [] = Inr ?reg" by code_simp
  have d1: "declared example_disk ''fr'' ''azerty''" by code_simp
  have d2: "declared example_disk ''de'' ''neo''" by code_simp
  have m: "mask_selects (parse_mask []) ''fr'' ''azerty''" "mask_selects (parse_mask []) ''de'' ''neo''"
    by code_simp+
  have f1: "symbols_files example_disk ''fr'' = Some ''// Generated by Kalamine\<newline>\<newline>// KALAMINE::BEPO::BEGIN\<newline>key <AD01> { [ b, B ] };\<newline>// KALAMINE::BEPO::END\<newline>''"
    by (simp add: example_disk_def)
  have f2: "list_all (\<lambda>line. is_new_symbol_mark line \<noteq> Some ''azerty'')
     (read_lines ''// Generated by Kalamine\<newline>\<newline>// KALAMINE::BEPO::BEGIN\<newline>key <AD01> { [ b, B ] };\<newline>// KALAMINE::BEPO::END\<newline>'')"
    by code_simp
  have f3: "symbols_files example_disk ''de'' = None" by (simp add: example_disk_def)
  from declared_but_not_installed [OF e1 d1] e2 m(1) f1 f2
  have a: "listed ?all ''fr'' ''azerty''" and b: "\<not> listed ?reg ''fr'' ''azerty''"
    by auto
  from declared_but_not_installed [OF e1 d2] e2 m(2) f3
  have c: "listed ?all ''de'' ''neo''" and d: "map_of ?reg ''de'' = None"
    by auto
  from e2 a b c d show ?thesis by (intro conjI)
qed

text \<open>
  Claim C7. The claim fails for the variant \<open>lafayette\<close>, for which \<^verbatim>\<open>is_new_symbol_mark\<close>
  takes every line that ends in \<^verbatim>\<open>::BEGIN\<close> and does not start with \<^verbatim>\<open>// KALAMINE::\<close>. The
  rules declare \<open>fr/lafayette\<close>; the symbols file of \<open>fr\<close> holds the block of another
  program, between \<^verbatim>\<open>// FOO::BEGIN\<close> and \<^verbatim>\<open>// FOO::END\<close>, and no block of Lafayette or
  Kalamine. The pair has no marker block in the file, and still \<^verbatim>\<open>list\<close> returns it, as
  \<^verbatim>\<open>list_all\<close> does.
\<close>

theorem foreign_block_lists_lafayette:
  "declared foreign_marker_disk ''fr'' ''lafayette'' \<and>
   symbols_files foreign_marker_disk ''fr'' =
     Some ''// FOO::BEGIN\<newline>key <AD01>\<newline>// FOO::END\<newline>'' \<and>
   map is_new_symbol_mark (read_lines ''// FOO::BEGIN\<newline>key <AD01>\<newline>// FOO::END\<newline>'') =
     [Some ''lafayette'', None, None] \<and>
   list_all_mgr example_manager foreign_marker_disk [] =
     Inr [(''fr'', [(''lafayette'', ''French (Lafayette)'')])] \<and>
   list_mgr example_manager foreign_marker_disk [] =
     Inr [(''fr'', [(''lafayette'', ''French (Lafayette)'')])]"
proof -
  have a: "declared foreign_marker_disk ''fr'' ''lafayette''" by code_simp
  have b: "symbols_files foreign_marker_disk ''fr'' =
     Some ''// FOO::BEGIN\<newline>key <AD01>\<newline>// FOO::END\<newline>''"
    by (simp add: foreign_marker_disk_def)
  have c: "map is_new_symbol_mark
       (read_lines ''// FOO::BEGIN\<newline>key <AD01>\<newline>// FOO::END\<newline>'') =
     [Some ''lafayette'', None, None]"
    by code_simp
  have d: "list_all_mgr example_manager foreign_marker_disk [] =
     Inr [(''fr'', [(''lafayette'', ''French (Lafayette)'')])]"
    by code_simp
  have e: "list_mgr example_manager foreign_marker_disk [] =
     Inr [(''fr'', [(''lafayette'', ''French (Lafayette)'')])]"
    by code_simp
  from a b c d e show ?thesis by (intro conjI)
qed


section \<open>The rules tree under a second update\<close>






















section \<open>The index as a dictionary\<close>

lemma set_AList_update:
  "p \<in> set (AList.update k v al) \<Longrightarrow> p = (k, v) \<or> p \<in> set al"
  by (induction al) (auto split: if_splits)

lemma well_formed_index_set:
  assumes "well_formed_index idx"
  shows "well_formed_index (index_set idx l n v)"
proof -
  let ?inner = "case map_of idx l of None \<Rightarrow> [] | Some inner \<Rightarrow> inner"
  have "distinct (dict_keys ?inner)"
  proof (cases "map_of idx l")
    case None
    then show ?thesis by (simp add: dict_keys_def)
  next
    case (Some inner)
    then have "(l, inner) \<in> set idx" by (rule map_of_SomeD)
    with assms Some show ?thesis by (auto simp: well_formed_index_def list_all_iff)
  qed
  then have d: "distinct (dict_keys (AList.update n v ?inner))"
    by (simp add: dict_keys_def distinct_update)
  have "distinct (dict_keys (snd p))" if "p \<in> set (index_set idx l n v)" for p
    using set_AList_update [OF that [unfolded index_set_def]] d assms
    by (auto simp: well_formed_index_def list_all_iff)
  moreover have "distinct (dict_keys (index_set idx l n v))"
    using assms by (simp add: well_formed_index_def index_set_def dict_keys_def distinct_update)
  ultimately show ?thesis by (simp add: well_formed_index_def list_all_iff)
qed

lemma well_formed_index_manager:
  "well_formed_index (index m) \<Longrightarrow> well_formed_index (index (add m layout))"
  "well_formed_index (index m) \<Longrightarrow> well_formed_index (index (remove m loc variant))"
  by (simp_all add: add_def remove_def well_formed_index_set)

lemma well_formed_index_Nil: "well_formed_index []"
  by (simp add: well_formed_index_def dict_keys_def)

section \<open>The second commit\<close>



















end
